theory Spec2Isabelle
  imports Complex_Main "HOL-Library.Char_ord" "HOL-Library.List_Lexorder" "HOL-Library.Sublist"
begin

section \<open>Message board canister (src/index.ts)\<close>

subsection \<open>Data model\<close>

text \<open>
  A \<open>Date\<close> is its time value, milliseconds since the epoch. \<open>getCurrentDate()\<close> reads
  the canister clock \<open>ic.time()\<close> and converts it through a double; the handlers below take
  its result as the argument \<open>now\<close>, and the result of \<open>uuidv4()\<close> as the argument \<open>uuid\<close>.
\<close>

type_synonym timestamp = int

text \<open>
  A value of the parsed JSON request body. The handlers store whatever the body holds
  and check no field, so a title or a body need not be a string.
\<close>

datatype json =
  JString string
| JNumber real
| JBool bool
| JNull
| JArray "json list"
| JObject "(string \<times> json) list"

text \<open>
  \<open>class Message\<close>. The objects the handlers build come from object spreads over the
  request body, so \<open>title\<close>, \<open>body\<close> and \<open>attachmentURL\<close> are absent (\<open>None\<close>) when
  no body supplied them, and otherwise hold the JSON value the body gave; \<open>id\<close> and
  \<open>createdAt\<close> are always present, because \<open>POST /messages\<close> gives both a default.
  \<open>updatedAt\<close> is absent or null until set. \<open>id\<close>, \<open>createdAt\<close> and \<open>updatedAt\<close> are
  taken at the types the class declares. The field \<open>id\<close> is written \<open>id'\<close>.
\<close>

record Message =
  id' :: string
  title :: "json option"
  body :: "json option"
  attachmentURL :: "json option"
  createdAt :: timestamp
  updatedAt :: "timestamp option"

text \<open>
  \<open>req.body\<close>, the parsed JSON object of a request: any subset of the fields of
  \<open>Message\<close>. \<open>None\<close> is a field the body does not have.
\<close>

record reqBody =
  id_in :: "string option"
  title_in :: "json option"
  body_in :: "json option"
  attachmentURL_in :: "json option"
  createdAt_in :: "timestamp option"
  updatedAt_in :: "timestamp option"

text \<open>
  What a handler answers: \<open>res.json(x)\<close> is \<open>Inr x\<close>, \<open>res.status(n).send(text)\<close> is
  \<open>Inl (Status n text)\<close>, and an exception thrown inside the handler is \<open>Inl TypeError\<close>.
  \<open>Inl NotRouted\<close> is the answer of express when no route takes the request.
\<close>

datatype failure = Status nat string | TypeError | NotRouted

subsection \<open>The record store\<close>

text \<open>
  Modelled from the spec: \<open>StableBTreeMap\<close> comes from the azle library, which is not
  part of the sources. The spec (4.1) gives its contract: \<open>insert(id, message)\<close> stores
  the message under the id, overwrites an existing value and returns the prior value if
  there was one; \<open>get(id)\<close> returns the stored value or an explicit absent signal;
  \<open>remove(id)\<close> deletes the entry if present and returns the removed value or the absent
  signal; \<open>values()\<close> yields all current values in ascending key order. The optional
  result is an object with a discriminant field (spec 9), \<open>{Some: value}\<close> or
  \<open>{None: null}\<close>, as the handler of \<open>PUT\<close> reads it with \<open>messageOpt.Some\<close>; here it
  is \<open>Some value\<close> or \<open>None\<close>. The store is the list of its entries, kept in strictly
  ascending key order (\<open>sbt_inv\<close>); keys are compared as strings, character by character.
\<close>

type_synonym store = "(string \<times> Message) list"

definition sbt_inv :: "store \<Rightarrow> bool" where
  "sbt_inv s = sorted_wrt (<) (map fst s)"

fun sbt_get :: "store \<Rightarrow> string \<Rightarrow> Message option" where
  "sbt_get [] k = None"
| "sbt_get ((k', v) # s) k = (if k' = k then Some v else sbt_get s k)"

fun sbt_put :: "string \<Rightarrow> Message \<Rightarrow> store \<Rightarrow> store" where
  "sbt_put k v [] = [(k, v)]"
| "sbt_put k v ((k', v') # s) =
     (if k' < k then (k', v') # sbt_put k v s
      else if k' = k then (k, v) # s
      else (k, v) # (k', v') # s)"

definition sbt_insert :: "string \<Rightarrow> Message \<Rightarrow> store \<Rightarrow> Message option \<times> store" where
  "sbt_insert k v s = (sbt_get s k, sbt_put k v s)"

definition sbt_remove :: "string \<Rightarrow> store \<Rightarrow> Message option \<times> store" where
  "sbt_remove k s = (sbt_get s k, filter (\<lambda>e. fst e \<noteq> k) s)"

definition sbt_values :: "store \<Rightarrow> Message list" where
  "sbt_values s = map snd s"

definition sbt_keys :: "store \<Rightarrow> string set" where
  "sbt_keys s = fst ` set s"

subsection \<open>Object spread\<close>

text \<open>
  \<open>{...message, ...req.body}\<close>: every field the body has replaces the field of the
  message; the other fields keep the message's value.
\<close>

definition spread :: "Message \<Rightarrow> reqBody \<Rightarrow> Message" where
  "spread m b =
     \<lparr> id' = (case id_in b of None \<Rightarrow> id' m | Some i \<Rightarrow> i),
       title = (case title_in b of None \<Rightarrow> title m | Some t \<Rightarrow> Some t),
       body = (case body_in b of None \<Rightarrow> body m | Some t \<Rightarrow> Some t),
       attachmentURL = (case attachmentURL_in b of None \<Rightarrow> attachmentURL m | Some u \<Rightarrow> Some u),
       createdAt = (case createdAt_in b of None \<Rightarrow> createdAt m | Some d \<Rightarrow> d),
       updatedAt = (case updatedAt_in b of None \<Rightarrow> updatedAt m | Some d \<Rightarrow> Some d) \<rparr>"

subsection \<open>Strings\<close>

text \<open>
  \<open>hay.includes(needle)\<close>, here \<open>includes_str hay needle\<close>, looks for the needle at
  every position of the haystack. \<open>String.prototype.toLowerCase\<close> is a built-in of
  the language that follows the Unicode case mapping; the search handler takes it as the
  argument \<open>toLowerCase\<close>.
\<close>

fun startsWith :: "string \<Rightarrow> string \<Rightarrow> bool" where
  "startsWith hay [] = True"
| "startsWith [] (c # needle) = False"
| "startsWith (h # hay) (c # needle) = (h = c \<and> startsWith hay needle)"

fun includes_str :: "string \<Rightarrow> string \<Rightarrow> bool" where
  "includes_str [] needle = (needle = [])"
| "includes_str (h # hay) needle = (startsWith (h # hay) needle \<or> includes_str hay needle)"

subsection \<open>The handlers\<close>

text \<open>
  Each handler takes the store and returns its answer and the store afterwards.

  The handlers of \<open>/messages/:id\<close> test the result of the store with \<open>!messageOpt\<close>
  (\<open>!deletedMessage\<close>). The result is an object in both of its cases, and the negation
  of an object is false: \<open>falsy\<close>. So the branch that answers "not found" is never
  taken, and \<open>res.json\<close> sends the optional result itself, \<open>{Some: message}\<close> or
  \<open>{None: null}\<close>.
\<close>

definition falsy :: "Message option \<Rightarrow> bool" where
  "falsy messageOpt = False"

text \<open>\<open>app.post("/messages")\<close>\<close>

definition post_messages ::
  "string \<Rightarrow> timestamp \<Rightarrow> reqBody \<Rightarrow> store \<Rightarrow> (failure + Message) \<times> store" where
  "post_messages uuid now b s =
     (let message =
        spread \<lparr> id' = uuid, title = None, body = None, attachmentURL = None,
                 createdAt = now, updatedAt = None \<rparr> b
      in (Inr message, snd (sbt_insert (id' message) message s)))"

text \<open>\<open>app.get("/messages")\<close>\<close>

definition get_messages :: "store \<Rightarrow> (failure + Message list) \<times> store" where
  "get_messages s = (Inr (sbt_values s), s)"

text \<open>\<open>app.get("/messages/:id")\<close>\<close>

definition get_messages_id ::
  "string \<Rightarrow> store \<Rightarrow> (failure + Message option) \<times> store" where
  "get_messages_id messageId s =
     (let messageOpt = sbt_get s messageId
      in if falsy messageOpt
         then (Inl (Status 404 (''the message with id='' @ messageId @ '' not found'')), s)
         else (Inr messageOpt, s))"

text \<open>
  \<open>app.put("/messages/:id")\<close>. When the store has no value under the id,
  \<open>messageOpt.Some\<close> is undefined; the spread of undefined adds nothing, and
  \<open>message!.id\<close> throws before \<open>insert\<close> is called.
\<close>

definition put_messages_id ::
  "string \<Rightarrow> timestamp \<Rightarrow> reqBody \<Rightarrow> store \<Rightarrow> (failure + Message) \<times> store" where
  "put_messages_id messageId now b s =
     (let messageOpt = sbt_get s messageId
      in if falsy messageOpt
         then (Inl (Status 400 (''couldn't update a message with id='' @ messageId
                                @ ''. message not found'')), s)
         else (case messageOpt of
                 None \<Rightarrow> (Inl TypeError, s)
               | Some message \<Rightarrow>
                   (let updatedMessage = (spread message b) \<lparr> updatedAt := Some now \<rparr>
                    in (Inr updatedMessage,
                        snd (sbt_insert (id' message) updatedMessage s)))))"

text \<open>\<open>app.delete("/messages/:id")\<close>\<close>

definition delete_messages_id ::
  "string \<Rightarrow> store \<Rightarrow> (failure + Message option) \<times> store" where
  "delete_messages_id messageId s =
     (case sbt_remove messageId s of
        (deletedMessage, s') \<Rightarrow>
          if falsy deletedMessage
          then (Inl (Status 400 (''couldn't delete a message with id='' @ messageId
                                 @ ''. message not found'')), s')
          else (Inr deletedMessage, s'))"

text \<open>
  \<open>app.get("/messages/search")\<close>. The callback of \<open>filter\<close> calls \<open>toLowerCase\<close> on
  \<open>message.title\<close> and, when the title does not match, on \<open>message.body\<close>; on a field
  that is absent or is not a string this throws, which ends the whole request.
  \<open>lowered\<close> is \<open>field.toLowerCase()\<close> (\<open>None\<close> when it throws), \<open>matches\<close> is the
  callback and \<open>filterT\<close> is \<open>Array.prototype.filter\<close> with a callback that may throw.
\<close>

definition lowered :: "(string \<Rightarrow> string) \<Rightarrow> json option \<Rightarrow> string option" where
  "lowered toLowerCase field =
     (case field of Some (JString t) \<Rightarrow> Some (toLowerCase t) | _ \<Rightarrow> None)"

definition matches :: "(string \<Rightarrow> string) \<Rightarrow> string \<Rightarrow> Message \<Rightarrow> bool option" where
  "matches toLowerCase query message =
     (case lowered toLowerCase (title message) of
        None \<Rightarrow> None
      | Some t \<Rightarrow>
          if includes_str t query then Some True
          else (case lowered toLowerCase (body message) of
                  None \<Rightarrow> None
                | Some bd \<Rightarrow> Some (includes_str bd query)))"

fun filterT :: "('a \<Rightarrow> bool option) \<Rightarrow> 'a list \<Rightarrow> 'a list option" where
  "filterT p [] = Some []"
| "filterT p (x # xs) =
     (case p x of
        None \<Rightarrow> None
      | Some keep \<Rightarrow>
          (case filterT p xs of
             None \<Rightarrow> None
           | Some ys \<Rightarrow> Some (if keep then x # ys else ys)))"

definition get_messages_search ::
  "(string \<Rightarrow> string) \<Rightarrow> string option \<Rightarrow> store \<Rightarrow> (failure + Message list) \<times> store" where
  "get_messages_search toLowerCase q s =
     (case map_option toLowerCase q of
        None \<Rightarrow> (Inl (Status 400 ''Query parameter is required.''), s)
      | Some query \<Rightarrow>
          if query = [] then (Inl (Status 400 ''Query parameter is required.''), s)
          else (case filterT (matches toLowerCase query) (sbt_values s) of
                  None \<Rightarrow> (Inl TypeError, s)
                | Some results \<Rightarrow> (Inr results, s)))"

subsection \<open>The routes\<close>

text \<open>
  A request is its HTTP verb, the segments of its path, the \<open>query\<close> parameter of its query
  string and its parsed body; the model covers the four verbs the application
  registers. Express keeps the routes in the order of their registration and runs the
  handler of the first route whose verb and path match; every handler here answers
  and none passes the request on. In a route path a literal segment matches without
  regard to the case of the letters A to Z, and a parameter such as \<open>:id\<close> matches any
  non-empty segment.
\<close>

datatype verb = GET | POST | PUT | DELETE

record request =
  req_verb :: verb
  req_path :: "string list"
  req_query :: "string option"
  req_body :: reqBody

datatype segment = Lit string | Param

definition asciiLower :: "char \<Rightarrow> char" where
  "asciiLower c =
     (let n = (of_char c :: nat) in if 65 \<le> n \<and> n \<le> 90 then char_of (n + 32) else c)"

fun match_path :: "segment list \<Rightarrow> string list \<Rightarrow> string list option" where
  "match_path [] [] = Some []"
| "match_path (Lit l # ps) (x # xs) =
     (if map asciiLower x = map asciiLower l then match_path ps xs else None)"
| "match_path (Param # ps) (x # xs) =
     (if x = [] then None else map_option ((#) x) (match_path ps xs))"
| "match_path ps xs = None"

text \<open>The JSON value a handler sends, over all handlers.\<close>

datatype payload = OneMessage Message | MessageList "Message list" | OptMessage "Message option"

type_synonym handler = "request \<Rightarrow> string list \<Rightarrow> store \<Rightarrow> (failure + payload) \<times> store"

definition answer :: "('a \<Rightarrow> payload) \<Rightarrow> (failure + 'a) \<times> store \<Rightarrow> (failure + payload) \<times> store" where
  "answer wrap r = (map_sum (\<lambda>e. e) wrap (fst r), snd r)"

fun dispatch ::
  "(verb \<times> segment list \<times> handler) list \<Rightarrow> request \<Rightarrow> store
     \<Rightarrow> (failure + payload) \<times> store" where
  "dispatch [] req s = (Inl NotRouted, s)"
| "dispatch ((m, p, h) # routes) req s =
     (if m = req_verb req
      then (case match_path p (req_path req) of
              Some params \<Rightarrow> h req params s
            | None \<Rightarrow> dispatch routes req s)
      else dispatch routes req s)"

text \<open>
  The application: the six routes in the order in which \<open>index.ts\<close> registers them.
  \<open>req.params.id\<close> is the one parameter of the route.
\<close>

definition with_id :: "(string \<Rightarrow> store \<Rightarrow> (failure + payload) \<times> store) \<Rightarrow> handler" where
  "with_id h req params s =
     (case params of [messageId] \<Rightarrow> h messageId s | _ \<Rightarrow> (Inl NotRouted, s))"

definition app ::
  "(string \<Rightarrow> string) \<Rightarrow> string \<Rightarrow> timestamp \<Rightarrow> request \<Rightarrow> store
     \<Rightarrow> (failure + payload) \<times> store" where
  "app toLowerCase uuid now req s =
     dispatch
       [(POST, [Lit ''messages''],
           \<lambda>req params s. answer OneMessage (post_messages uuid now (req_body req) s)),
        (GET, [Lit ''messages''],
           \<lambda>req params s. answer MessageList (get_messages s)),
        (GET, [Lit ''messages'', Param],
           \<lambda>req. with_id (\<lambda>messageId s. answer OptMessage (get_messages_id messageId s)) req),
        (PUT, [Lit ''messages'', Param],
           \<lambda>req. with_id (\<lambda>messageId s.
             answer OneMessage (put_messages_id messageId now (req_body req) s)) req),
        (DELETE, [Lit ''messages'', Param],
           \<lambda>req. with_id (\<lambda>messageId s. answer OptMessage (delete_messages_id messageId s)) req),
        (GET, [Lit ''messages'', Lit ''search''],
           \<lambda>req params s.
             answer MessageList (get_messages_search toLowerCase (req_query req) s))]
       req s"

subsection \<open>Search as the specification words it\<close>

text \<open>
  The specification's condition for a record to be a search result: the lowercased query
  is a substring of the lowercased title or of the lowercased body.
\<close>

definition spec_search_hit :: "(string \<Rightarrow> string) \<Rightarrow> string \<Rightarrow> Message \<Rightarrow> bool" where
  "spec_search_hit toLowerCase q m =
     ((case title m of
         Some (JString t) \<Rightarrow> sublist (toLowerCase q) (toLowerCase t) | _ \<Rightarrow> False)
      \<or> (case body m of
         Some (JString t) \<Rightarrow> sublist (toLowerCase q) (toLowerCase t) | _ \<Rightarrow> False))"

definition is_text :: "json option \<Rightarrow> bool" where
  "is_text field = (case field of Some (JString t) \<Rightarrow> True | _ \<Rightarrow> False)"

subsection \<open>Stores whose keys are the ids of their records\<close>

text \<open>
  \<open>POST /messages\<close> stores every Message under its own \<open>id\<close> field. \<open>ids_match\<close>
  says that this still holds of every entry of a store.
\<close>

definition ids_match :: "store \<Rightarrow> bool" where
  "ids_match s = list_all (\<lambda>e. id' (snd e) = fst e) s"

section \<open>Properties of the store and of the string functions\<close>

lemma sbt_get_put: "sbt_get (sbt_put k v s) k' = (if k' = k then Some v else sbt_get s k')"
  by (induction s) auto

lemma sbt_keys_Cons: "sbt_keys (e # s) = insert (fst e) (sbt_keys s)"
  by (simp add: sbt_keys_def)

lemma sbt_keys_put: "sbt_keys (sbt_put k v s) = insert k (sbt_keys s)"
proof (induction s)
  case Nil
  show ?case by (simp add: sbt_keys_def)
next
  case (Cons e s)
  then show ?case by (cases e) (simp add: sbt_keys_Cons insert_commute)
qed

lemma sbt_get_None_iff: "sbt_get s k = None \<longleftrightarrow> k \<notin> sbt_keys s"
proof (induction s)
  case Nil
  show ?case by (simp add: sbt_keys_def)
next
  case (Cons e s)
  then show ?case by (cases e) (simp add: sbt_keys_Cons)
qed

lemma sbt_inv_Cons: "sbt_inv (e # s) \<longleftrightarrow> (\<forall>x \<in> sbt_keys s. fst e < x) \<and> sbt_inv s"
  by (simp add: sbt_inv_def sbt_keys_def)

lemma sbt_inv_put: "sbt_inv s \<Longrightarrow> sbt_inv (sbt_put k v s)"
proof (induction s)
  case Nil
  show ?case by (simp add: sbt_inv_def)
next
  case (Cons e s)
  obtain k' v' where e: "e = (k', v')" by (cases e)
  from Cons.prems have tail: "sbt_inv s" and above: "\<forall>x \<in> sbt_keys s. k' < x"
    by (simp_all add: sbt_inv_Cons e)
  show ?case
  proof (cases "k' < k")
    case True
    have "\<forall>x \<in> sbt_keys (sbt_put k v s). k' < x"
      using above True by (simp add: sbt_keys_put)
    with Cons.IH [OF tail] True show ?thesis
      by (simp add: sbt_inv_Cons e)
  next
    case False
    show ?thesis
    proof (cases "k' = k")
      case True
      with tail above show ?thesis by (simp add: sbt_inv_Cons e)
    next
      case distinct: False
      with False have "k < k'" by simp
      with tail above False distinct show ?thesis
        by (auto simp: sbt_inv_Cons sbt_keys_Cons e)
    qed
  qed
qed

lemma sbt_get_filter:
  "sbt_get (filter (\<lambda>e. fst e \<noteq> k) s) k' = (if k' = k then None else sbt_get s k')"
  by (induction s) auto

lemma filter_absent: "sbt_get s k = None \<Longrightarrow> filter (\<lambda>e. fst e \<noteq> k) s = s"
  by (induction s) (auto split: if_splits)

lemma sbt_inv_filter: "sbt_inv s \<Longrightarrow> sbt_inv (filter P s)"
  unfolding sbt_inv_def by (induction s) auto

lemma startsWith_iff: "startsWith hay needle \<longleftrightarrow> prefix needle hay"
  by (induction hay needle rule: startsWith.induct) auto

lemma includes_str_iff: "includes_str hay needle \<longleftrightarrow> sublist needle hay"
  by (induction hay) (auto simp: startsWith_iff sublist_Cons_right)

lemma filterT_total:
  "\<forall>x \<in> set xs. p x \<noteq> None \<Longrightarrow> filterT p xs = Some (filter (\<lambda>x. p x = Some True) xs)"
  by (induction xs) auto

lemma sbt_values_by_key:
  "sbt_inv s \<Longrightarrow> map (sbt_get s) (map fst s) = map Some (sbt_values s)"
proof (induction s)
  case Nil
  show ?case by (simp add: sbt_values_def)
next
  case (Cons e s)
  obtain k v where e: "e = (k, v)" by (cases e)
  from Cons.prems have tail: "sbt_inv s" and above: "\<forall>x \<in> sbt_keys s. k < x"
    by (simp_all add: sbt_inv_Cons e)
  have "map (sbt_get (e # s)) (map fst s) = map (sbt_get s) (map fst s)"
    using above by (auto simp: e sbt_keys_def)
  with Cons.IH [OF tail] show ?case
    by (simp add: e sbt_values_def)
qed

lemma matches_hit:
  "is_text (title m) \<Longrightarrow> is_text (body m) \<Longrightarrow>
     matches toLowerCase (toLowerCase q) m = Some (spec_search_hit toLowerCase q m)"
  by (auto simp: matches_def lowered_def spec_search_hit_def is_text_def includes_str_iff
      split: option.splits json.splits)

lemma search_results:
  assumes "\<forall>m \<in> set (sbt_values s). is_text (title m) \<and> is_text (body m)"
  shows "filterT (matches toLowerCase (toLowerCase q)) (sbt_values s) =
           Some (map snd (filter (\<lambda>e. spec_search_hit toLowerCase q (snd e)) s))"
proof -
  have each: "\<forall>m \<in> set (sbt_values s).
      matches toLowerCase (toLowerCase q) m = Some (spec_search_hit toLowerCase q m)"
    using assms by (simp add: matches_hit)
  then have "\<forall>m \<in> set (sbt_values s). matches toLowerCase (toLowerCase q) m \<noteq> None"
    by simp
  then have "filterT (matches toLowerCase (toLowerCase q)) (sbt_values s) =
      Some (filter (\<lambda>m. matches toLowerCase (toLowerCase q) m = Some True) (sbt_values s))"
    by (rule filterT_total)
  also have "filter (\<lambda>m. matches toLowerCase (toLowerCase q) m = Some True) (sbt_values s) =
      filter (spec_search_hit toLowerCase q) (sbt_values s)"
    using each by (intro filter_cong) auto
  also have "\<dots> = map snd (filter (\<lambda>e. spec_search_hit toLowerCase q (snd e)) s)"
    by (simp add: sbt_values_def filter_map comp_def)
  finally show ?thesis .
qed

text \<open>
  What the handler of \<open>/messages/search\<close> computes when it is called on a store whose
  records all have a string as title and as body: for a query whose lowercased form is
  not empty, the records the specification asks for, in the order of their keys.
\<close>

lemma get_messages_search_when_called:
  assumes "sbt_inv s"
    and "\<forall>m \<in> set (sbt_values s). is_text (title m) \<and> is_text (body m)"
    and "toLowerCase q \<noteq> []"
  shows "get_messages_search toLowerCase (Some q) s =
           (Inr (map snd (filter (\<lambda>e. spec_search_hit toLowerCase q (snd e)) s)), s)"
    and "sorted_wrt (<) (map fst (filter (\<lambda>e. spec_search_hit toLowerCase q (snd e)) s))"
proof -
  show "get_messages_search toLowerCase (Some q) s =
      (Inr (map snd (filter (\<lambda>e. spec_search_hit toLowerCase q (snd e)) s)), s)"
    using search_results [OF assms(2)] assms(3)
    by (simp add: get_messages_search_def)
  show "sorted_wrt (<) (map fst (filter (\<lambda>e. spec_search_hit toLowerCase q (snd e)) s))"
    using sbt_inv_filter [OF assms(1)] by (simp add: sbt_inv_def)
qed

subsection \<open>The routes\<close>

lemma lit_messages: "map asciiLower ''messages'' = ''messages''"
  by code_simp

lemma lit_search: "map asciiLower ''search'' = ''search''"
  by code_simp

lemma search_is_an_id:
  "match_path [Lit ''messages'', Param] [''messages'', ''search''] = Some [''search'']"
  by (simp add: lit_messages)

subsection \<open>The handlers keep the store ordered\<close>

lemma sbt_inv_Nil: "sbt_inv []"
  by (simp add: sbt_inv_def)

lemma post_messages_inv: "sbt_inv s \<Longrightarrow> sbt_inv (snd (post_messages uuid now b s))"
  by (simp add: post_messages_def sbt_insert_def Let_def sbt_inv_put)

lemma put_messages_id_inv: "sbt_inv s \<Longrightarrow> sbt_inv (snd (put_messages_id messageId now b s))"
  by (simp add: put_messages_id_def falsy_def sbt_insert_def Let_def sbt_inv_put
      split: option.split)

lemma delete_messages_id_inv: "sbt_inv s \<Longrightarrow> sbt_inv (snd (delete_messages_id messageId s))"
  by (simp add: delete_messages_id_def falsy_def sbt_remove_def sbt_inv_filter)

subsection \<open>When keys stay the ids of their records\<close>

lemma list_all_sbt_put: "list_all P s \<Longrightarrow> P (k, v) \<Longrightarrow> list_all P (sbt_put k v s)"
  by (induction s) auto

lemma ids_match_get: "ids_match s \<Longrightarrow> sbt_get s k = Some m \<Longrightarrow> id' m = k"
  unfolding ids_match_def by (induction s) (auto split: if_splits)

lemma post_messages_ids_match:
  "ids_match s \<Longrightarrow> ids_match (snd (post_messages uuid now b s))"
  by (simp add: post_messages_def sbt_insert_def Let_def ids_match_def list_all_sbt_put)

lemma put_messages_id_ids_match:
  assumes "ids_match s" and "id_in b = None"
  shows "ids_match (snd (put_messages_id messageId now b s))"
proof (cases "sbt_get s messageId")
  case None
  with assms(1) show ?thesis by (simp add: put_messages_id_def falsy_def)
next
  case (Some m)
  have "list_all (\<lambda>e. id' (snd e) = fst e)
      (sbt_put (id' m) ((spread m b) \<lparr> updatedAt := Some now \<rparr>) s)"
    using assms by (intro list_all_sbt_put) (simp_all add: ids_match_def spread_def)
  with Some show ?thesis
    by (simp add: put_messages_id_def falsy_def sbt_insert_def Let_def ids_match_def)
qed

lemma delete_messages_id_ids_match:
  "ids_match s \<Longrightarrow> ids_match (snd (delete_messages_id messageId s))"
  by (simp add: delete_messages_id_def falsy_def sbt_remove_def ids_match_def list_all_iff)

section \<open>Properties of the handlers\<close>

text \<open>
  C1 (as amended). \<open>POST /messages\<close> always answers with the created Message, which is
  the request body merged over the defaults: its \<open>id\<close> is the generated identifier and
  its \<open>createdAt\<close> the current time unless the body supplies the field, in which case
  the caller's value is used; \<open>updatedAt\<close> is absent unless the body supplies it; and
  \<open>title\<close>, \<open>body\<close> and \<open>attachmentURL\<close> are those of the body.
\<close>

theorem post_messages_created:
  "fst (post_messages uuid now b s) =
     Inr \<lparr> id' = (case id_in b of None \<Rightarrow> uuid | Some i \<Rightarrow> i),
           title = title_in b, body = body_in b, attachmentURL = attachmentURL_in b,
           createdAt = (case createdAt_in b of None \<Rightarrow> now | Some d \<Rightarrow> d),
           updatedAt = updatedAt_in b \<rparr>"
  by (simp add: post_messages_def spread_def Let_def split: option.split)

theorem post_messages_created_witness:
  "fst (post_messages ''uuid-1'' 1000
          \<lparr> id_in = None, title_in = Some (JString ''Board update''), body_in = Some (JString ''Meeting at noon''),
            attachmentURL_in = None, createdAt_in = None, updatedAt_in = None \<rparr> []) =
     Inr \<lparr> id' = ''uuid-1'', title = Some (JString ''Board update''), body = Some (JString ''Meeting at noon''),
           attachmentURL = None, createdAt = 1000, updatedAt = None \<rparr>"
  using post_messages_created [of "''uuid-1''" 1000
          "\<lparr> id_in = None, title_in = Some (JString ''Board update''), body_in = Some (JString ''Meeting at noon''),
            attachmentURL_in = None, createdAt_in = None, updatedAt_in = None \<rparr>" "[]"]
  by simp

text \<open>
  C1 as stated fails: a body that carries \<open>id\<close>, \<open>createdAt\<close> and \<open>updatedAt\<close>
  gets all three into the created Message, in place of the generated identifier, of the
  current time and of an absent \<open>updatedAt\<close>.
\<close>

theorem post_messages_caller_fields_counterexample:
  "fst (post_messages ''uuid-1'' 1000
          \<lparr> id_in = Some ''mine'', title_in = Some (JString ''t''), body_in = None,
            attachmentURL_in = None, createdAt_in = Some 5, updatedAt_in = Some 6 \<rparr> []) =
     Inr \<lparr> id' = ''mine'', title = Some (JString ''t''), body = None, attachmentURL = None,
           createdAt = 5, updatedAt = Some 6 \<rparr>
   \<and> fst (post_messages ''uuid-1'' 1000
          \<lparr> id_in = Some ''mine'', title_in = Some (JString ''t''), body_in = None,
            attachmentURL_in = None, createdAt_in = Some 5, updatedAt_in = Some 6 \<rparr> []) \<noteq>
     Inr \<lparr> id' = ''uuid-1'', title = Some (JString ''t''), body = None, attachmentURL = None,
           createdAt = 1000, updatedAt = None \<rparr>"
  by (simp add: post_messages_def spread_def Let_def)

text \<open>
  C2 (as amended). \<open>PUT /messages/:id\<close> on a stored Message answers with a record
  whose \<open>id\<close> and \<open>createdAt\<close> are those of the stored Message when the payload
  carries no such field; an \<open>id\<close> or \<open>createdAt\<close> in the payload is not ignored but
  replaces the stored value. The record is written under the \<open>id\<close> field that the
  stored Message had.
\<close>

theorem put_messages_id_id_createdAt:
  assumes "sbt_get s messageId = Some m"
  shows "\<exists>m'. fst (put_messages_id messageId now b s) = Inr m'
           \<and> id' m' = (case id_in b of None \<Rightarrow> id' m | Some i \<Rightarrow> i)
           \<and> createdAt m' = (case createdAt_in b of None \<Rightarrow> createdAt m | Some d \<Rightarrow> d)
           \<and> sbt_get (snd (put_messages_id messageId now b s)) (id' m) = Some m'"
  using assms
  by (simp add: put_messages_id_def falsy_def sbt_insert_def Let_def spread_def sbt_get_put)

theorem put_messages_id_id_createdAt_witness:
  "fst (put_messages_id ''a'' 2
      \<lparr> id_in = None, title_in = None, body_in = Some (JString ''x''), attachmentURL_in = None,
        createdAt_in = None, updatedAt_in = None \<rparr>
      [(''a'', \<lparr> id' = ''a'', title = Some (JString ''t''), body = Some (JString ''b''), attachmentURL = None,
                 createdAt = 1, updatedAt = None \<rparr>)]) =
     Inr \<lparr> id' = ''a'', title = Some (JString ''t''), body = Some (JString ''x''), attachmentURL = None,
           createdAt = 1, updatedAt = Some 2 \<rparr>"
proof -
  have found: "sbt_get [(''a'', \<lparr> id' = ''a'', title = Some (JString ''t''), body = Some (JString ''b''),
                 attachmentURL = None, createdAt = 1, updatedAt = None \<rparr>)] ''a'' =
     Some \<lparr> id' = ''a'', title = Some (JString ''t''), body = Some (JString ''b''), attachmentURL = None,
            createdAt = 1, updatedAt = None \<rparr>"
    by simp
  from put_messages_id_id_createdAt [OF found, of 2
      "\<lparr> id_in = None, title_in = None, body_in = Some (JString ''x''), attachmentURL_in = None,
        createdAt_in = None, updatedAt_in = None \<rparr>"]
  show ?thesis
    by (simp add: put_messages_id_def falsy_def sbt_insert_def Let_def spread_def)
qed

text \<open>
  C2 as stated fails: after creating a Message with id \<open>a\<close> at time 1, an update
  whose payload carries \<open>id\<close> and \<open>createdAt\<close> answers with, and stores, a record
  with the payload's \<open>id\<close> and \<open>createdAt\<close>.
\<close>

theorem put_messages_id_payload_id_counterexample:
  "sbt_get (snd (post_messages ''a'' 1
        \<lparr> id_in = None, title_in = Some (JString ''t''), body_in = None, attachmentURL_in = None,
          createdAt_in = None, updatedAt_in = None \<rparr> [])) ''a'' =
     Some \<lparr> id' = ''a'', title = Some (JString ''t''), body = None, attachmentURL = None,
            createdAt = 1, updatedAt = None \<rparr>
   \<and> put_messages_id ''a'' 2
        \<lparr> id_in = Some ''b'', title_in = None, body_in = None, attachmentURL_in = None,
          createdAt_in = Some 99, updatedAt_in = None \<rparr>
        (snd (post_messages ''a'' 1
          \<lparr> id_in = None, title_in = Some (JString ''t''), body_in = None, attachmentURL_in = None,
            createdAt_in = None, updatedAt_in = None \<rparr> [])) =
     (Inr \<lparr> id' = ''b'', title = Some (JString ''t''), body = None, attachmentURL = None,
            createdAt = 99, updatedAt = Some 2 \<rparr>,
      [(''a'', \<lparr> id' = ''b'', title = Some (JString ''t''), body = None, attachmentURL = None,
                 createdAt = 99, updatedAt = Some 2 \<rparr>)])"
  by (simp add: post_messages_def put_messages_id_def falsy_def sbt_insert_def Let_def spread_def)

text \<open>
  C3 (as amended). \<open>PUT /messages/:id\<close> on a stored Message merges the payload over
  it: \<open>title\<close>, \<open>body\<close> and \<open>attachmentURL\<close> keep their stored value unless the
  payload has the field; \<open>updatedAt\<close> becomes the current time whatever the payload
  says; the merged record is the answer, and it is written under the \<open>id\<close> field of the
  stored Message, which is the requested id when that field equals its key. The new
  \<open>updatedAt\<close> is not before the stored \<open>createdAt\<close>, nor before the stored
  \<open>updatedAt\<close>, when these are not later than the current time.
\<close>

theorem put_messages_id_merge:
  assumes "sbt_get s messageId = Some m"
  shows "\<exists>m'. put_messages_id messageId now b s = (Inr m', sbt_put (id' m) m' s)
           \<and> title m' = (case title_in b of None \<Rightarrow> title m | Some t \<Rightarrow> Some t)
           \<and> body m' = (case body_in b of None \<Rightarrow> body m | Some t \<Rightarrow> Some t)
           \<and> attachmentURL m' =
               (case attachmentURL_in b of None \<Rightarrow> attachmentURL m | Some u \<Rightarrow> Some u)
           \<and> updatedAt m' = Some now
           \<and> (id' m = messageId \<longrightarrow>
                sbt_get (snd (put_messages_id messageId now b s)) messageId = Some m')
           \<and> (createdAt m \<le> now \<longrightarrow> (\<exists>u'. updatedAt m' = Some u' \<and> createdAt m \<le> u'))
           \<and> (\<forall>u. updatedAt m = Some u \<and> u \<le> now \<longrightarrow>
                (\<exists>u'. updatedAt m' = Some u' \<and> u \<le> u'))"
  using assms
  by (simp add: put_messages_id_def falsy_def sbt_insert_def Let_def spread_def sbt_get_put)

theorem put_messages_id_merge_witness:
  "put_messages_id ''a'' 3
      \<lparr> id_in = None, title_in = None, body_in = Some (JString ''x''), attachmentURL_in = None,
        createdAt_in = None, updatedAt_in = Some 0 \<rparr>
      [(''a'', \<lparr> id' = ''a'', title = Some (JString ''t''), body = Some (JString ''b''), attachmentURL = None,
                 createdAt = 1, updatedAt = Some 2 \<rparr>)] =
     (Inr \<lparr> id' = ''a'', title = Some (JString ''t''), body = Some (JString ''x''), attachmentURL = None,
            createdAt = 1, updatedAt = Some 3 \<rparr>,
      [(''a'', \<lparr> id' = ''a'', title = Some (JString ''t''), body = Some (JString ''x''), attachmentURL = None,
                 createdAt = 1, updatedAt = Some 3 \<rparr>)])
   \<and> id' \<lparr> id' = ''a'', title = Some (JString ''t''), body = Some (JString ''b''), attachmentURL = None,
            createdAt = 1, updatedAt = Some 2 \<rparr> = ''a''
   \<and> createdAt \<lparr> id' = ''a'', title = Some (JString ''t''), body = Some (JString ''b''), attachmentURL = None,
            createdAt = 1, updatedAt = Some 2 \<rparr> \<le> 3
   \<and> (2::int) \<le> 3"
proof -
  have found: "sbt_get [(''a'', \<lparr> id' = ''a'', title = Some (JString ''t''), body = Some (JString ''b''),
                 attachmentURL = None, createdAt = 1, updatedAt = Some 2 \<rparr>)] ''a'' =
     Some \<lparr> id' = ''a'', title = Some (JString ''t''), body = Some (JString ''b''), attachmentURL = None,
            createdAt = 1, updatedAt = Some 2 \<rparr>"
    by simp
  from put_messages_id_merge [OF found, of 3
      "\<lparr> id_in = None, title_in = None, body_in = Some (JString ''x''), attachmentURL_in = None,
        createdAt_in = None, updatedAt_in = Some 0 \<rparr>"]
  show ?thesis
    by (simp add: put_messages_id_def falsy_def sbt_insert_def Let_def spread_def)
qed

text \<open>
  C3 as stated fails. A Message is created with id \<open>a\<close> at time 1 from a body with
  \<open>createdAt\<close> 100, and updated at time 2 with a payload whose \<open>id\<close> is \<open>b\<close>.
  A further update of \<open>a\<close> at time 3 answers with a record whose \<open>updatedAt\<close> 3 is
  before its \<open>createdAt\<close> 100, and writes it under the key \<open>b\<close>: the record under
  \<open>a\<close> is not the merged one.
\<close>

theorem put_messages_id_drift_counterexample:
  "put_messages_id ''a'' 3
      \<lparr> id_in = None, title_in = None, body_in = None, attachmentURL_in = None,
        createdAt_in = None, updatedAt_in = None \<rparr>
      (snd (put_messages_id ''a'' 2
        \<lparr> id_in = Some ''b'', title_in = None, body_in = None, attachmentURL_in = None,
          createdAt_in = None, updatedAt_in = None \<rparr>
        (snd (post_messages ''a'' 1
          \<lparr> id_in = None, title_in = None, body_in = None, attachmentURL_in = None,
            createdAt_in = Some 100, updatedAt_in = None \<rparr> [])))) =
     (Inr \<lparr> id' = ''b'', title = None, body = None, attachmentURL = None,
            createdAt = 100, updatedAt = Some 3 \<rparr>,
      [(''a'', \<lparr> id' = ''b'', title = None, body = None, attachmentURL = None,
                 createdAt = 100, updatedAt = Some 2 \<rparr>),
       (''b'', \<lparr> id' = ''b'', title = None, body = None, attachmentURL = None,
                 createdAt = 100, updatedAt = Some 3 \<rparr>)])
   \<and> \<not> (100::int) \<le> 3"
  by (simp add: post_messages_def put_messages_id_def falsy_def sbt_insert_def Let_def spread_def)

text \<open>
  C4. The claim: a search with a non-empty query answers with the stored records whose
  lowercased title or body contains the lowercased query, and with an input error for an
  empty or absent query. The application does not do so: the route \<open>/messages/:id\<close> is
  registered before \<open>/messages/search\<close> and takes every \<open>GET /messages/search\<close> with
  \<open>search\<close> as the id, so the answer is the result of looking up the key \<open>search\<close>,
  whatever the query and the titles and bodies in the store, and the search handler is
  never run.
\<close>

theorem search_request_never_searches:
  "app toLowerCase uuid now
      \<lparr> req_verb = GET, req_path = [''messages'', ''search''], req_query = q,
        req_body = b \<rparr> s =
     (Inr (OptMessage (sbt_get s ''search'')), s)"
  by (simp add: app_def lit_messages with_id_def answer_def get_messages_id_def falsy_def)

theorem search_request_never_searches_witness:
  "app (map asciiLower) ''uuid-1'' 5
      \<lparr> req_verb = GET, req_path = [''messages'', ''search''], req_query = Some ''hello'',
        req_body = \<lparr> id_in = None, title_in = None, body_in = None, attachmentURL_in = None,
                     createdAt_in = None, updatedAt_in = None \<rparr> \<rparr>
      [(''a'', \<lparr> id' = ''a'', title = Some (JString ''hello''), body = Some (JString ''world''),
                 attachmentURL = None, createdAt = 1, updatedAt = None \<rparr>)] =
     (Inr (OptMessage None),
      [(''a'', \<lparr> id' = ''a'', title = Some (JString ''hello''), body = Some (JString ''world''),
                 attachmentURL = None, createdAt = 1, updatedAt = None \<rparr>)])"
  using search_request_never_searches [of "map asciiLower" "''uuid-1''" 5 "Some ''hello''"
      "\<lparr> id_in = None, title_in = None, body_in = None, attachmentURL_in = None,
         createdAt_in = None, updatedAt_in = None \<rparr>"
      "[(''a'', \<lparr> id' = ''a'', title = Some (JString ''hello''), body = Some (JString ''world''),
                 attachmentURL = None, createdAt = 1, updatedAt = None \<rparr>)]"]
  by simp

text \<open>
  C5. The claim: for an id the store does not hold, get, update and delete signal
  NotFound and write nothing, and a second delete signals NotFound. The handlers do not
  signal it: the test \<open>!messageOpt\<close> is false of the object the store returns, so for
  such an id \<open>GET\<close> and \<open>DELETE /messages/:id\<close> answer with \<open>{None: null}\<close> and
  \<open>PUT /messages/:id\<close> throws; the store is unchanged. After \<open>DELETE\<close> has answered
  with the deleted Message, a second \<open>DELETE\<close> of the same id answers with
  \<open>{None: null}\<close>.
\<close>

theorem absent_id_not_signalled:
  "(sbt_get s messageId = None \<longrightarrow>
      get_messages_id messageId s = (Inr None, s)
      \<and> put_messages_id messageId now b s = (Inl TypeError, s)
      \<and> delete_messages_id messageId s = (Inr None, s))
   \<and> (sbt_get s messageId = Some m \<longrightarrow>
      fst (delete_messages_id messageId s) = Inr (Some m)
      \<and> delete_messages_id messageId (snd (delete_messages_id messageId s)) =
        (Inr None, snd (delete_messages_id messageId s)))"
  by (simp add: get_messages_id_def put_messages_id_def delete_messages_id_def falsy_def
      sbt_remove_def filter_absent sbt_get_filter)

theorem absent_id_not_signalled_witness:
  "get_messages_id ''zz'' [] = (Inr None, [])
   \<and> put_messages_id ''zz'' 5
        \<lparr> id_in = None, title_in = Some (JString ''t''), body_in = None,
          attachmentURL_in = None, createdAt_in = None, updatedAt_in = None \<rparr> [] =
      (Inl TypeError, [])
   \<and> delete_messages_id ''zz'' [] = (Inr None, [])
   \<and> fst (delete_messages_id ''a''
      [(''a'', \<lparr> id' = ''a'', title = None, body = None, attachmentURL = None,
                 createdAt = 1, updatedAt = None \<rparr>)]) =
     Inr (Some \<lparr> id' = ''a'', title = None, body = None, attachmentURL = None,
                 createdAt = 1, updatedAt = None \<rparr>)
   \<and> delete_messages_id ''a'' (snd (delete_messages_id ''a''
      [(''a'', \<lparr> id' = ''a'', title = None, body = None, attachmentURL = None,
                 createdAt = 1, updatedAt = None \<rparr>)])) =
     (Inr None, [])"
proof -
  have absent: "sbt_get [] ''zz'' = None"
    by simp
  have present: "sbt_get [(''a'', \<lparr> id' = ''a'', title = None, body = None,
      attachmentURL = None, createdAt = 1, updatedAt = None \<rparr>)] ''a'' =
      Some \<lparr> id' = ''a'', title = None, body = None, attachmentURL = None,
             createdAt = 1, updatedAt = None \<rparr>"
    by simp
  have emptied: "snd (delete_messages_id ''a'' [(''a'', \<lparr> id' = ''a'', title = None,
      body = None, attachmentURL = None, createdAt = 1, updatedAt = None \<rparr>)]) = []"
    by (simp add: delete_messages_id_def falsy_def sbt_remove_def)
  have first: "get_messages_id ''zz'' [] = (Inr None, [])
   \<and> put_messages_id ''zz'' 5
        \<lparr> id_in = None, title_in = Some (JString ''t''), body_in = None,
          attachmentURL_in = None, createdAt_in = None, updatedAt_in = None \<rparr> [] =
      (Inl TypeError, [])
   \<and> delete_messages_id ''zz'' [] = (Inr None, [])"
    using absent_id_not_signalled [where s = "[]" and messageId = "''zz''" and now = 5
      and b = "\<lparr> id_in = None, title_in = Some (JString ''t''), body_in = None,
          attachmentURL_in = None, createdAt_in = None, updatedAt_in = None \<rparr>"] absent
    by simp
  have second: "fst (delete_messages_id ''a''
      [(''a'', \<lparr> id' = ''a'', title = None, body = None, attachmentURL = None,
                 createdAt = 1, updatedAt = None \<rparr>)]) =
     Inr (Some \<lparr> id' = ''a'', title = None, body = None, attachmentURL = None,
                 createdAt = 1, updatedAt = None \<rparr>)
   \<and> delete_messages_id ''a'' (snd (delete_messages_id ''a''
      [(''a'', \<lparr> id' = ''a'', title = None, body = None, attachmentURL = None,
                 createdAt = 1, updatedAt = None \<rparr>)])) =
     (Inr None,
      snd (delete_messages_id ''a''
      [(''a'', \<lparr> id' = ''a'', title = None, body = None, attachmentURL = None,
                 createdAt = 1, updatedAt = None \<rparr>)]))"
    using absent_id_not_signalled [where s = "[(''a'', \<lparr> id' = ''a'', title = None,
      body = None, attachmentURL = None, createdAt = 1, updatedAt = None \<rparr>)]"
      and messageId = "''a''"
      and m = "\<lparr> id' = ''a'', title = None, body = None, attachmentURL = None,
             createdAt = 1, updatedAt = None \<rparr>"] present
    by simp
  from first second show ?thesis
    by (simp only: emptied)
qed

text \<open>
  C6. In the store, \<open>get(id)\<close> right after \<open>insert(id, message)\<close> returns the message
  inserted, whatever the store held before; \<open>insert\<close> returns the value stored under
  the id before, if any, and afterwards the keys are the former keys and the id.
\<close>

theorem sbt_insert_then_get:
  "sbt_get (snd (sbt_insert k v s)) k = Some v \<and> fst (sbt_insert k v s) = sbt_get s k
     \<and> sbt_keys (snd (sbt_insert k v s)) = insert k (sbt_keys s)"
  by (simp add: sbt_insert_def sbt_get_put sbt_keys_put)

theorem sbt_insert_then_get_witness:
  "sbt_get (snd (sbt_insert ''a''
        \<lparr> id' = ''a'', title = Some (JString ''new''), body = None, attachmentURL = None,
          createdAt = 2, updatedAt = None \<rparr>
        [(''a'', \<lparr> id' = ''a'', title = Some (JString ''old''), body = None, attachmentURL = None,
                   createdAt = 1, updatedAt = None \<rparr>)])) ''a'' =
     Some \<lparr> id' = ''a'', title = Some (JString ''new''), body = None, attachmentURL = None,
            createdAt = 2, updatedAt = None \<rparr>
   \<and> fst (sbt_insert ''a''
        \<lparr> id' = ''a'', title = Some (JString ''new''), body = None, attachmentURL = None,
          createdAt = 2, updatedAt = None \<rparr>
        [(''a'', \<lparr> id' = ''a'', title = Some (JString ''old''), body = None, attachmentURL = None,
                   createdAt = 1, updatedAt = None \<rparr>)]) =
     Some \<lparr> id' = ''a'', title = Some (JString ''old''), body = None, attachmentURL = None,
            createdAt = 1, updatedAt = None \<rparr>"
  using sbt_insert_then_get [of "''a''"
        "\<lparr> id' = ''a'', title = Some (JString ''new''), body = None, attachmentURL = None,
          createdAt = 2, updatedAt = None \<rparr>"
        "[(''a'', \<lparr> id' = ''a'', title = Some (JString ''old''), body = None, attachmentURL = None,
                   createdAt = 1, updatedAt = None \<rparr>)]"]
  by simp

text \<open>
  C7. \<open>GET /messages\<close> answers with the records of all keys of the store, each once,
  in ascending key order, and asking again without a change in between gives the same
  answer.
\<close>

theorem get_messages_ordered:
  assumes "sbt_inv s"
  shows "(\<exists>ks ms. fst (get_messages s) = Inr ms \<and> sorted_wrt (<) ks \<and> set ks = sbt_keys s
            \<and> map (sbt_get s) ks = map Some ms)
         \<and> get_messages (snd (get_messages s)) = get_messages s"
proof -
  have "sorted_wrt (<) (map fst s)" and "set (map fst s) = sbt_keys s"
    using assms by (simp_all add: sbt_inv_def sbt_keys_def)
  moreover have "map (sbt_get s) (map fst s) = map Some (sbt_values s)"
    using assms by (rule sbt_values_by_key)
  ultimately show ?thesis
    unfolding get_messages_def
    by (intro conjI exI [of _ "map fst s"] exI [of _ "sbt_values s"]) simp_all
qed

theorem get_messages_ordered_witness:
  "sbt_inv [(''a'', \<lparr> id' = ''a'', title = None, body = None, attachmentURL = None,
                      createdAt = 2, updatedAt = None \<rparr>),
            (''b'', \<lparr> id' = ''b'', title = None, body = None, attachmentURL = None,
                      createdAt = 1, updatedAt = None \<rparr>)]
   \<and> get_messages (snd (get_messages
           [(''a'', \<lparr> id' = ''a'', title = None, body = None, attachmentURL = None,
                      createdAt = 2, updatedAt = None \<rparr>),
            (''b'', \<lparr> id' = ''b'', title = None, body = None, attachmentURL = None,
                      createdAt = 1, updatedAt = None \<rparr>)])) =
     (Inr [\<lparr> id' = ''a'', title = None, body = None, attachmentURL = None,
              createdAt = 2, updatedAt = None \<rparr>,
           \<lparr> id' = ''b'', title = None, body = None, attachmentURL = None,
              createdAt = 1, updatedAt = None \<rparr>],
      [(''a'', \<lparr> id' = ''a'', title = None, body = None, attachmentURL = None,
                      createdAt = 2, updatedAt = None \<rparr>),
            (''b'', \<lparr> id' = ''b'', title = None, body = None, attachmentURL = None,
                      createdAt = 1, updatedAt = None \<rparr>)])"
proof -
  have inv: "sbt_inv [(''a'', \<lparr> id' = ''a'', title = None, body = None,
                      attachmentURL = None, createdAt = 2, updatedAt = None \<rparr>),
            (''b'', \<lparr> id' = ''b'', title = None, body = None, attachmentURL = None,
                      createdAt = 1, updatedAt = None \<rparr>)]"
    by (simp add: sbt_inv_def)
  from get_messages_ordered [OF inv] inv show ?thesis
    by (simp add: get_messages_def sbt_values_def)
qed

text \<open>
  C8. \<open>GET /messages\<close>, \<open>GET /messages/:id\<close> and \<open>GET /messages/search\<close> leave the
  store as it was, whatever they answer.
\<close>

theorem reads_keep_store:
  "snd (get_messages s) = s \<and> snd (get_messages_id messageId s) = s
     \<and> snd (get_messages_search toLowerCase q s) = s"
  by (simp add: get_messages_def get_messages_id_def get_messages_search_def Let_def
      split: option.split)

theorem reads_keep_store_witness:
  "snd (get_messages_id ''b''
      [(''a'', \<lparr> id' = ''a'', title = None, body = None, attachmentURL = None,
                 createdAt = 1, updatedAt = None \<rparr>)]) =
     [(''a'', \<lparr> id' = ''a'', title = None, body = None, attachmentURL = None,
                 createdAt = 1, updatedAt = None \<rparr>)]
   \<and> snd (get_messages_search (map asciiLower) (Some ''x'')
      [(''a'', \<lparr> id' = ''a'', title = None, body = None, attachmentURL = None,
                 createdAt = 1, updatedAt = None \<rparr>)]) =
     [(''a'', \<lparr> id' = ''a'', title = None, body = None, attachmentURL = None,
                 createdAt = 1, updatedAt = None \<rparr>)]"
  using reads_keep_store [of
      "[(''a'', \<lparr> id' = ''a'', title = None, body = None, attachmentURL = None,
                 createdAt = 1, updatedAt = None \<rparr>)]" "''b''" "map asciiLower" "Some ''x''"]
  by simp

text \<open>
  C9 (as amended). \<open>PUT /messages/:id\<close> on a stored Message whose \<open>id\<close> field
  equals its key leaves the set of keys as it was: the merged record is written under
  that key, and an \<open>id\<close> in the payload only shows in the \<open>id\<close> field of the record
  stored there.
\<close>

theorem put_messages_id_keys:
  assumes "sbt_get s messageId = Some m" and "id' m = messageId"
  shows "sbt_keys (snd (put_messages_id messageId now b s)) = sbt_keys s
         \<and> (\<exists>m'. sbt_get (snd (put_messages_id messageId now b s)) messageId = Some m'
                \<and> id' m' = (case id_in b of None \<Rightarrow> messageId | Some i \<Rightarrow> i))"
proof -
  from assms(1) have "messageId \<in> sbt_keys s"
    using sbt_get_None_iff [of s messageId] by simp
  then have "insert messageId (sbt_keys s) = sbt_keys s"
    by (rule insert_absorb)
  with assms show ?thesis
    by (simp add: put_messages_id_def falsy_def sbt_insert_def Let_def spread_def sbt_get_put sbt_keys_put
        split: option.split)
qed

theorem put_messages_id_keys_witness:
  "sbt_keys (snd (put_messages_id ''a'' 2
      \<lparr> id_in = Some ''b'', title_in = None, body_in = None, attachmentURL_in = None,
        createdAt_in = None, updatedAt_in = None \<rparr>
      [(''a'', \<lparr> id' = ''a'', title = Some (JString ''t''), body = None, attachmentURL = None,
                 createdAt = 1, updatedAt = None \<rparr>)])) = {''a''}
   \<and> sbt_get (snd (put_messages_id ''a'' 2
      \<lparr> id_in = Some ''b'', title_in = None, body_in = None, attachmentURL_in = None,
        createdAt_in = None, updatedAt_in = None \<rparr>
      [(''a'', \<lparr> id' = ''a'', title = Some (JString ''t''), body = None, attachmentURL = None,
                 createdAt = 1, updatedAt = None \<rparr>)])) ''a'' =
     Some \<lparr> id' = ''b'', title = Some (JString ''t''), body = None, attachmentURL = None,
            createdAt = 1, updatedAt = Some 2 \<rparr>"
proof -
  have found: "sbt_get [(''a'', \<lparr> id' = ''a'', title = Some (JString ''t''), body = None,
                 attachmentURL = None, createdAt = 1, updatedAt = None \<rparr>)] ''a'' =
     Some \<lparr> id' = ''a'', title = Some (JString ''t''), body = None, attachmentURL = None,
            createdAt = 1, updatedAt = None \<rparr>"
    by simp
  have same: "id' \<lparr> id' = ''a'', title = Some (JString ''t''), body = None, attachmentURL = None,
            createdAt = 1, updatedAt = None \<rparr> = ''a''"
    by simp
  from put_messages_id_keys [OF found same, of 2
      "\<lparr> id_in = Some ''b'', title_in = None, body_in = None, attachmentURL_in = None,
        createdAt_in = None, updatedAt_in = None \<rparr>"]
  show ?thesis
    by (simp add: put_messages_id_def falsy_def sbt_insert_def Let_def spread_def sbt_keys_def)
qed

text \<open>
  C9 as stated fails: once an update has given the record under key \<open>a\<close> the
  \<open>id\<close> \<open>b\<close>, the next update of \<open>a\<close> writes under \<open>b\<close>, a key the store did
  not have.
\<close>

theorem put_messages_id_new_key_counterexample:
  "sbt_keys (snd (put_messages_id ''a'' 2
        \<lparr> id_in = Some ''b'', title_in = None, body_in = None, attachmentURL_in = None,
          createdAt_in = None, updatedAt_in = None \<rparr>
        (snd (post_messages ''a'' 1
          \<lparr> id_in = None, title_in = None, body_in = None, attachmentURL_in = None,
            createdAt_in = None, updatedAt_in = None \<rparr> [])))) = {''a''}
   \<and> sbt_keys (snd (put_messages_id ''a'' 3
      \<lparr> id_in = None, title_in = Some (JString ''again''), body_in = None, attachmentURL_in = None,
        createdAt_in = None, updatedAt_in = None \<rparr>
      (snd (put_messages_id ''a'' 2
        \<lparr> id_in = Some ''b'', title_in = None, body_in = None, attachmentURL_in = None,
          createdAt_in = None, updatedAt_in = None \<rparr>
        (snd (post_messages ''a'' 1
          \<lparr> id_in = None, title_in = None, body_in = None, attachmentURL_in = None,
            createdAt_in = None, updatedAt_in = None \<rparr> [])))))) = {''a'', ''b''}
   \<and> {''a''} \<noteq> {''a'', ''b''}"
  by (simp add: post_messages_def put_messages_id_def falsy_def sbt_insert_def Let_def spread_def
      sbt_keys_def)

text \<open>
  C10. \<open>POST /messages\<close> answers with exactly the Message it stores, and stores it under
  the key that is the Message's own \<open>id\<close> field.
\<close>

theorem post_messages_returns_stored:
  "\<exists>m. post_messages uuid now b s = (Inr m, sbt_put (id' m) m s)
      \<and> sbt_get (snd (post_messages uuid now b s)) (id' m) = Some m
      \<and> sbt_keys (snd (post_messages uuid now b s)) = insert (id' m) (sbt_keys s)"
  by (simp add: post_messages_def sbt_insert_def Let_def sbt_get_put sbt_keys_put)

theorem post_messages_returns_stored_witness:
  "post_messages ''uuid-1'' 1000
      \<lparr> id_in = None, title_in = Some (JString ''Board update''), body_in = None,
        attachmentURL_in = None, createdAt_in = None, updatedAt_in = None \<rparr> [] =
     (Inr \<lparr> id' = ''uuid-1'', title = Some (JString ''Board update''), body = None,
            attachmentURL = None, createdAt = 1000, updatedAt = None \<rparr>,
      [(''uuid-1'', \<lparr> id' = ''uuid-1'', title = Some (JString ''Board update''), body = None,
            attachmentURL = None, createdAt = 1000, updatedAt = None \<rparr>)])"
  using post_messages_returns_stored [of "''uuid-1''" 1000
      "\<lparr> id_in = None, title_in = Some (JString ''Board update''), body_in = None,
        attachmentURL_in = None, createdAt_in = None, updatedAt_in = None \<rparr>" "[]"]
  by (simp add: post_messages_def spread_def sbt_insert_def Let_def)

end
